theory Spec2Isabelle
  imports Complex_Main "HOL-Library.Monad_Syntax" "HOL-Library.Multiset"
begin

section \<open>Conventions of the embedding\<close>

text \<open>
  The notebook \<^verbatim>\<open>notebooks/general-cmag.ipynb\<close> computes with numpy arrays of floats.
  A float is modelled as a \<^typ>\<open>real\<close>, a one-dimensional array as a list. numpy does not
  raise on a division by zero or on a logarithm or square root outside the domain: it
  returns \<^verbatim>\<open>inf\<close> or \<^verbatim>\<open>nan\<close> and goes on. Such a non-finite float is the value
  \<^term>\<open>None\<close> of \<^typ>\<open>real option\<close>. A Python exception is the left summand of
  \<open>error + 'a\<close>.
\<close>

datatype error =
    RuntimeError string
  | KeyError string
  | ValueError
  | IndexError
  | TypeError
  | FileNotFoundError

definition bindE :: "error + 'a \<Rightarrow> ('a \<Rightarrow> error + 'b) \<Rightarrow> error + 'b" where
  "bindE m f = (case m of Inl e \<Rightarrow> Inl e | Inr v \<Rightarrow> f v)"

definition fdiv :: "real \<Rightarrow> real \<Rightarrow> real option" where
  "fdiv x y = (if y = 0 then None else Some (x / y))"

definition flog :: "real \<Rightarrow> real option" where
  "flog x = (if x \<le> 0 then None else Some (ln x))"

definition fsqrt :: "real \<Rightarrow> real option" where
  "fsqrt x = (if x < 0 then None else Some (sqrt x))"


section \<open>Model forms\<close>

text \<open>
  \<^verbatim>\<open>def HH91(x, a=17.3, b=0.75): return (a / (x + b))**2\<close>

  \<^verbatim>\<open>def HH91_integral(x, a=17.3, b=0.75):
      xb = x + b
      return a**2 * np.pi * (np.log(xb / b) - x / xb)\<close>

  \<^verbatim>\<open>def HH91_c1(totalarea, b=0.75, maxecc=7):
      mb = maxecc + b
      return np.sqrt(totalarea / np.pi / (np.log(mb / b) - maxecc/mb))\<close>

  The forms are given at one eccentricity; numpy applies them to an array entry by entry.
  The default arguments are passed explicitly.
\<close>

definition HH91 :: "real \<Rightarrow> real \<Rightarrow> real \<Rightarrow> real option" where
  "HH91 x a b = do { q \<leftarrow> fdiv a (x + b); Some (q ^ 2) }"

definition HH91_integral :: "real \<Rightarrow> real \<Rightarrow> real \<Rightarrow> real option" where
  "HH91_integral x a b =
     (let xb = x + b in
      do { q \<leftarrow> fdiv xb b; l \<leftarrow> flog q; s \<leftarrow> fdiv x xb;
           Some (a ^ 2 * pi * (l - s)) })"



definition beta_argtx :: "(real list \<Rightarrow> real option list) \<times> (real list \<Rightarrow> real list)" where
  "beta_argtx = (map fsqrt, map (\<lambda>v. v ^ 2))"


text \<open>
  The repository's notes on the mathematics derive the cumulative form of the areal
  Horton and Hoyt model over the disk of radius \<open>r\<close>:
  \<^verbatim>\<open>M_HH(r; a, b) = 2 pi a^2 (log((b + r) / b) - r / (b + r))\<close>.
\<close>

definition M_HH :: "real \<Rightarrow> real \<Rightarrow> real \<Rightarrow> real" where
  "M_HH r a b = 2 * pi * a ^ 2 * (ln ((b + r) / b) - r / (b + r))"


section \<open>Array primitives\<close>

text \<open>
  A binary numpy operation on two one-dimensional arrays broadcasts: equal lengths go
  entry by entry, a length-one operand is stretched, anything else raises ValueError.
\<close>

definition broadcast2 :: "('a \<Rightarrow> 'b \<Rightarrow> 'c) \<Rightarrow> 'a list \<Rightarrow> 'b list \<Rightarrow> error + 'c list" where
  "broadcast2 f xs ys =
     (if length xs = length ys then Inr (map2 f xs ys)
      else if length xs = 1 then Inr (map (f (hd xs)) ys)
      else if length ys = 1 then Inr (map (\<lambda>v. f v (hd ys)) xs)
      else Inl ValueError)"

definition hypot :: "real \<Rightarrow> real \<Rightarrow> real" where
  "hypot u v = sqrt (u ^ 2 + v ^ 2)"

definition np_hypot :: "real list \<Rightarrow> real list \<Rightarrow> error + real list" where
  "np_hypot xs ys = broadcast2 hypot xs ys"

definition np_and :: "bool list \<Rightarrow> bool list \<Rightarrow> error + bool list" where
  "np_and xs ys = broadcast2 (\<and>) xs ys"

text \<open>
  \<^verbatim>\<open>np.argsort(k)\<close>: the indices that sort \<open>k\<close> ascending. The model is the stable
  insertion sort of the index list by key. numpy's default sort need not be stable, but
  it is a function of the keys alone; the properties below that hold with tied keys use
  only that the result is a permutation of the indices that sorts the keys.
\<close>

definition argsort :: "real list \<Rightarrow> nat list" where
  "argsort ks = sort_key (\<lambda>i. ks ! i) [0..<length ks]"

text \<open>\<^verbatim>\<open>a[ii]\<close> for an array of indices: IndexError when an index is out of bounds.\<close>

definition np_take :: "'a list \<Rightarrow> nat list \<Rightarrow> error + 'a list" where
  "np_take xs ii =
     (if \<forall>i \<in> set ii. i < length xs then Inr (map (\<lambda>i. xs ! i) ii) else Inl IndexError)"

text \<open>\<^verbatim>\<open>a[m]\<close> for a boolean mask: the mask must have the length of the array.\<close>

definition np_mask :: "'a list \<Rightarrow> bool list \<Rightarrow> error + 'a list" where
  "np_mask xs m =
     (if length m = length xs then Inr (map fst (filter snd (zip xs m))) else Inl IndexError)"

text \<open>\<^verbatim>\<open>np.sum(m)\<close> of a boolean array counts its true entries.\<close>

definition count_true :: "bool list \<Rightarrow> nat" where
  "count_true m = length (filter (\<lambda>v. v) m)"

fun cumsum_from :: "real \<Rightarrow> real list \<Rightarrow> real list" where
  "cumsum_from acc [] = []"
| "cumsum_from acc (v # vs) = (acc + v) # cumsum_from (acc + v) vs"

definition np_cumsum :: "real list \<Rightarrow> real list" where
  "np_cumsum vs = cumsum_from 0 vs"

text \<open>The sum of an array of floats is finite when every entry is.\<close>

definition fsum :: "real option list \<Rightarrow> real option" where
  "fsum vs = (if None \<in> set vs then None else Some (sum_list (map the vs)))"


section \<open>The single fit\<close>

text \<open>
  The first lines of \<^verbatim>\<open>fit_cmag_cumecc\<close> build the empirical curve:

  \<^verbatim>\<open>eccen = np.hypot(prf_x, prf_y)
  ii = np.argsort(eccen)
  sarea = sarea[ii]
  eccen = eccen[ii]
  cumsa = np.cumsum(sarea)\<close>

  The curve is the pair of arrays \<open>(eccen, cumsa)\<close>.
\<close>

definition empirical_curve ::
  "real list \<Rightarrow> real list \<Rightarrow> real list \<Rightarrow> error + (real list \<times> real list)" where
  "empirical_curve prf_x prf_y surface_areas =
     bindE (np_hypot prf_x prf_y) (\<lambda>eccen.
       let ii = argsort eccen in
       bindE (np_take surface_areas ii) (\<lambda>sarea.
       bindE (np_take eccen ii) (\<lambda>eccen'.
       Inr (eccen', np_cumsum sarea))))"

text \<open>
  The rest of the function chooses the loss, hands the objective to the optimizer and
  maps the optimizer's point back:

  \<^verbatim>\<open>if argtx is None:
      argtx = (lambda a:a, lambda a:a)
  if lossfn == 'rss':
      def lossfn(gold, pred):
          return np.sum((gold - pred)**2)
  elif lossfn == 'mse':
      if weights is None:
          def lossfn(gold, pred):
              return np.mean((gold - pred)**2)
      else:
          wsum = np.sum(weights)
          def lossfn(gold, pred):
              return np.sum(weights * (gold - pred)**2) / wsum
  def stepfn(params):
      return lossfn(cumsa, formfn(eccen, *argtx[1](params)))
  params0 = argtx[0](params0)
  r = minimize(stepfn, params0, method=method)
  r.x = argtx[1](r.x)
  return r\<close>

  The result of the optimizer is a record of its point, the loss there and its
  convergence flag. A prediction of a form is an array of floats that may hold
  non-finite entries, and so is a loss value.
\<close>

record 'p optimize_result =
  opt_x :: 'p
  opt_fun :: "real option"
  opt_success :: bool

type_synonym loss = "real list \<Rightarrow> real option list \<Rightarrow> error + real option"

datatype lossfn = LossName string | LossFn loss

definition sq_err :: "real list \<Rightarrow> real option list \<Rightarrow> error + real option list" where
  "sq_err gold pred = broadcast2 (\<lambda>g p. map_option (\<lambda>v. (g - v) ^ 2) p) gold pred"

definition rss_loss :: loss where
  "rss_loss gold pred = bindE (sq_err gold pred) (\<lambda>d. Inr (fsum d))"

definition mse_loss :: loss where
  "mse_loss gold pred =
     bindE (sq_err gold pred) (\<lambda>d. Inr (fsum d \<bind> (\<lambda>s. fdiv s (real (length d)))))"

definition wmse_loss :: "real list \<Rightarrow> real \<Rightarrow> loss" where
  "wmse_loss weights wsum gold pred =
     bindE (sq_err gold pred) (\<lambda>d.
     bindE (broadcast2 (\<lambda>w v. map_option (\<lambda>u. w * u) v) weights d) (\<lambda>wd.
     Inr (fsum wd \<bind> (\<lambda>s. fdiv s wsum))))"

text \<open>
  The choice of the loss. A string other than \<^verbatim>\<open>'rss'\<close> and \<^verbatim>\<open>'mse'\<close> stays a
  string, and calling it raises TypeError; a function stays as it is.
\<close>

definition select_loss :: "lossfn \<Rightarrow> real list option \<Rightarrow> loss" where
  "select_loss lossfn weights =
     (case lossfn of
        LossFn f \<Rightarrow> f
      | LossName n \<Rightarrow>
          if n = ''rss'' then rss_loss
          else if n = ''mse'' then
            (case weights of
               None \<Rightarrow> mse_loss
             | Some w \<Rightarrow> wmse_loss w (sum_list w))
          else (\<lambda>gold pred. Inl TypeError))"

text \<open>
  \<^verbatim>\<open>scipy.optimize.minimize\<close> is the parameter \<open>minimize\<close>; the parameter vector is
  of any type \<open>'p\<close>, since the fit only hands it on.
\<close>

definition fit_cmag_cumecc ::
  "(('p \<Rightarrow> error + real option) \<Rightarrow> 'p \<Rightarrow> string option \<Rightarrow> error + 'p optimize_result) \<Rightarrow>
   real list \<Rightarrow> real list \<Rightarrow> real list \<Rightarrow>
   (real list \<Rightarrow> 'p \<Rightarrow> error + real option list) \<Rightarrow> 'p \<Rightarrow>
   string option \<Rightarrow> lossfn \<Rightarrow> real list option \<Rightarrow>
   (('p \<Rightarrow> error + 'p) \<times> ('p \<Rightarrow> error + 'p)) option \<Rightarrow>
   error + 'p optimize_result" where
  "fit_cmag_cumecc minimize prf_x prf_y surface_areas formfn params0 method lossfn weights argtx =
     bindE (empirical_curve prf_x prf_y surface_areas) (\<lambda>(eccen, cumsa).
       let argtx' = (case argtx of None \<Rightarrow> (Inr, Inr) | Some p \<Rightarrow> p);
           lossfn' = select_loss lossfn weights;
           stepfn = (\<lambda>params.
             bindE (snd argtx' params) (\<lambda>q.
             bindE (formfn eccen q) (\<lambda>pred. lossfn' cumsa pred)))
       in
       bindE (fst argtx' params0) (\<lambda>params0'.
       bindE (minimize stepfn params0' method) (\<lambda>r.
       bindE (snd argtx' (opt_x r)) (\<lambda>xf.
       Inr (r\<lparr>opt_x := xf\<rparr>)))))"


section \<open>Filters\<close>

text \<open>
  The data of one hemisphere is a dict from a key to an array with one entry per vertex:
  a map from strings to lists. \<^verbatim>\<open>d[k]\<close> raises KeyError on a missing key.

  \<^verbatim>\<open>def filt_base(subdat, maxecc=7):
      return (subdat['eccentricity'] < maxecc)
  def filt_wedge(subdat, minangle, maxangle):
      ang = subdat['polar_angle']
      return filt_base(subdat) & (ang >= minangle) & (ang <= maxangle)
  def filt_ring(subdat, minecc, maxecc):
      ecc = subdat['eccentricity']
      return filt_base(subdat) & (ecc >= minecc) & (ecc <= maxecc)
  def filt_sect(subdat, minang, maxang, minecc, maxecc):
      return (
          filt_base(subdat) &
          filt_wedge(subdat, minang, maxang) &
          filt_ring(subdat, minecc, maxecc))\<close>
\<close>

type_synonym subdat = "string \<rightharpoonup> real list"

definition getitem :: "(string \<rightharpoonup> 'v) \<Rightarrow> string \<Rightarrow> error + 'v" where
  "getitem d k = (case d k of None \<Rightarrow> Inl (KeyError k) | Some v \<Rightarrow> Inr v)"

definition filt_base :: "subdat \<Rightarrow> real \<Rightarrow> error + bool list" where
  "filt_base subdat maxecc =
     bindE (getitem subdat ''eccentricity'') (\<lambda>ecc. Inr (map (\<lambda>v. v < maxecc) ecc))"

definition filt_wedge :: "subdat \<Rightarrow> real \<Rightarrow> real \<Rightarrow> error + bool list" where
  "filt_wedge subdat minangle maxangle =
     bindE (getitem subdat ''polar_angle'') (\<lambda>ang.
     bindE (filt_base subdat 7) (\<lambda>base.
     bindE (np_and base (map (\<lambda>v. minangle \<le> v) ang)) (\<lambda>m.
     np_and m (map (\<lambda>v. v \<le> maxangle) ang))))"

definition filt_ring :: "subdat \<Rightarrow> real \<Rightarrow> real \<Rightarrow> error + bool list" where
  "filt_ring subdat minecc maxecc =
     bindE (getitem subdat ''eccentricity'') (\<lambda>ecc.
     bindE (filt_base subdat 7) (\<lambda>base.
     bindE (np_and base (map (\<lambda>v. minecc \<le> v) ecc)) (\<lambda>m.
     np_and m (map (\<lambda>v. v \<le> maxecc) ecc))))"

definition filt_sect :: "subdat \<Rightarrow> real \<Rightarrow> real \<Rightarrow> real \<Rightarrow> real \<Rightarrow> error + bool list" where
  "filt_sect subdat minang maxang minecc maxecc =
     bindE (filt_base subdat 7) (\<lambda>base.
     bindE (filt_wedge subdat minang maxang) (\<lambda>wedge.
     bindE (np_and base wedge) (\<lambda>m.
     bindE (filt_ring subdat minecc maxecc) (\<lambda>ring.
     np_and m ring))))"

text \<open>
  The conjunction the specification compares \<^verbatim>\<open>filt_sect\<close> with:
  \<^verbatim>\<open>filt_wedge(d, a0, a1) & filt_ring(d, e0, e1) & filt_base(d)\<close>.
\<close>

definition wedge_ring_base :: "subdat \<Rightarrow> real \<Rightarrow> real \<Rightarrow> real \<Rightarrow> real \<Rightarrow> error + bool list" where
  "wedge_ring_base d a0 a1 e0 e1 =
     bindE (filt_wedge d a0 a1) (\<lambda>wedge.
     bindE (filt_ring d e0 e1) (\<lambda>ring.
     bindE (np_and wedge ring) (\<lambda>m.
     bindE (filt_base d 7) (\<lambda>base.
     np_and m base))))"


section \<open>The batch fit\<close>

text \<open>
  \<^verbatim>\<open>def fitall_cmag_cumecc(data, formfn, params0, method=None, lossfn='mse',
                         weights=None, argtx=None, filter=None, labels=None):
      kw = dict(method=method, lossfn=lossfn, argtx=argtx)
      if not filter:
          filter = lambda dat: True
      if labels is None:
          labels = np.arange(1,11)
      result = {}
      for (sid, sdata) in data.items():
          sres = []
          for hdata in sdata:
              hres = []
              for lbl in labels:
                  ii = filter(hdata) & (hdata['label'] == lbl)
                  if np.sum(ii) < 5:
                      r = None
                  else:
                      weights = None if not weights else hdata[weights][ii]
                      r = fit_cmag_cumecc(
                          hdata['x'][ii], hdata['y'][ii], hdata['surface_area'][ii],
                          formfn, params0, weights=weights, **kw)
                  hres.append(r)
              sres.append(tuple(hres))
          result[sid] = tuple(sres)
      return result\<close>

  The variable \<^verbatim>\<open>weights\<close> is assigned inside the innermost loop, so its value is
  state that the three loops thread: it starts as the argument (nothing or a key) and
  holds an array once a cell has been fitted with a key.
\<close>

datatype weights = WNone | WKey string | WArr "real list"

text \<open>
  The value a filter returns: the default filter returns the Python scalar
  \<^verbatim>\<open>True\<close>, the filters above return arrays.
\<close>

datatype mask = MScalar bool | MArr "bool list"

definition mask_and :: "mask \<Rightarrow> bool list \<Rightarrow> error + bool list" where
  "mask_and m ys = (case m of MScalar b \<Rightarrow> Inr (map (\<lambda>v. b \<and> v) ys) | MArr xs \<Rightarrow> np_and xs ys)"

text \<open>
  \<^verbatim>\<open>not weights\<close>: the truth value of nothing and of the empty string is false; that
  of an array with more than one entry raises ValueError, that of a one-entry array is
  its entry's, and an empty array is false (numpy 1.24, with a deprecation warning).
\<close>

definition truth_value :: "weights \<Rightarrow> error + bool" where
  "truth_value w =
     (case w of
        WNone \<Rightarrow> Inr False
      | WKey k \<Rightarrow> Inr (k \<noteq> [])
      | WArr a \<Rightarrow>
          if length a = 0 then Inr False
          else if length a = 1 then Inr (hd a \<noteq> 0)
          else Inl ValueError)"

text \<open>\<^verbatim>\<open>hdata[weights]\<close>: an array cannot be a key of a dict (TypeError).\<close>

definition weights_lookup :: "subdat \<Rightarrow> weights \<Rightarrow> error + real list" where
  "weights_lookup hdata w =
     (case w of
        WKey k \<Rightarrow> getitem hdata k
      | WNone \<Rightarrow> Inl (KeyError [])
      | WArr a \<Rightarrow> Inl TypeError)"

text \<open>\<^verbatim>\<open>weights = None if not weights else hdata[weights][ii]\<close>\<close>

definition rebind_weights :: "subdat \<Rightarrow> bool list \<Rightarrow> weights \<Rightarrow> error + weights" where
  "rebind_weights hdata ii w =
     bindE (truth_value w) (\<lambda>t.
       if \<not> t then Inr WNone
       else bindE (weights_lookup hdata w) (\<lambda>arr.
            bindE (np_mask arr ii) (\<lambda>sel. Inr (WArr sel))))"

text \<open>The keyword \<^verbatim>\<open>weights=weights\<close> of the call of the single fit.\<close>

definition weights_arg :: "weights \<Rightarrow> real list option" where
  "weights_arg w = (case w of WArr a \<Rightarrow> Some a | _ \<Rightarrow> None)"

text \<open>
  One pass of the innermost loop body: the selection \<open>ii\<close>, the test against 5, the
  rebinding of \<^verbatim>\<open>weights\<close> and the fit. \<open>fit\<close> is \<^verbatim>\<open>fit_cmag_cumecc\<close> with the
  arguments that do not change between cells. The pass returns the entry appended to
  \<^verbatim>\<open>hres\<close> and the new value of \<^verbatim>\<open>weights\<close>.
\<close>

definition select_cell :: "(subdat \<Rightarrow> error + mask) \<Rightarrow> subdat \<Rightarrow> real \<Rightarrow> error + bool list" where
  "select_cell flt hdata lbl =
     bindE (flt hdata) (\<lambda>fm.
     bindE (getitem hdata ''label'') (\<lambda>lab.
     mask_and fm (map (\<lambda>v. v = lbl) lab)))"

definition fit_cell ::
  "(real list \<Rightarrow> real list \<Rightarrow> real list \<Rightarrow> real list option \<Rightarrow> error + 'r) \<Rightarrow>
   (subdat \<Rightarrow> error + mask) \<Rightarrow> weights \<Rightarrow> subdat \<Rightarrow> real \<Rightarrow> error + ('r option \<times> weights)" where
  "fit_cell fit flt w hdata lbl =
     bindE (select_cell flt hdata lbl) (\<lambda>ii.
       if count_true ii < 5 then Inr (None, w)
       else
         bindE (rebind_weights hdata ii w) (\<lambda>w'.
         bindE (getitem hdata ''x'') (\<lambda>xs.
         bindE (np_mask xs ii) (\<lambda>xi.
         bindE (getitem hdata ''y'') (\<lambda>ys.
         bindE (np_mask ys ii) (\<lambda>yi.
         bindE (getitem hdata ''surface_area'') (\<lambda>sa.
         bindE (np_mask sa ii) (\<lambda>si.
         bindE (fit xi yi si (weights_arg w')) (\<lambda>r.
         Inr (Some r, w'))))))))))"

fun labels_loop ::
  "(real list \<Rightarrow> real list \<Rightarrow> real list \<Rightarrow> real list option \<Rightarrow> error + 'r) \<Rightarrow>
   (subdat \<Rightarrow> error + mask) \<Rightarrow> weights \<Rightarrow> subdat \<Rightarrow> real list \<Rightarrow>
   error + ('r option list \<times> weights)" where
  "labels_loop fit flt w hdata [] = Inr ([], w)"
| "labels_loop fit flt w hdata (lbl # lbls) =
     bindE (fit_cell fit flt w hdata lbl) (\<lambda>(r, w').
     bindE (labels_loop fit flt w' hdata lbls) (\<lambda>(hres, w'').
     Inr (r # hres, w'')))"

fun hemis_loop ::
  "(real list \<Rightarrow> real list \<Rightarrow> real list \<Rightarrow> real list option \<Rightarrow> error + 'r) \<Rightarrow>
   (subdat \<Rightarrow> error + mask) \<Rightarrow> real list \<Rightarrow> weights \<Rightarrow> subdat list \<Rightarrow>
   error + ('r option list list \<times> weights)" where
  "hemis_loop fit flt labels w [] = Inr ([], w)"
| "hemis_loop fit flt labels w (hdata # sdata) =
     bindE (labels_loop fit flt w hdata labels) (\<lambda>(hres, w').
     bindE (hemis_loop fit flt labels w' sdata) (\<lambda>(sres, w'').
     Inr (hres # sres, w'')))"

text \<open>
  \<^verbatim>\<open>data.items()\<close> is the list of the dict's entries in insertion order, and the
  result dict receives one entry per subject in that order.
\<close>

fun subjects_loop ::
  "(real list \<Rightarrow> real list \<Rightarrow> real list \<Rightarrow> real list option \<Rightarrow> error + 'r) \<Rightarrow>
   (subdat \<Rightarrow> error + mask) \<Rightarrow> real list \<Rightarrow> weights \<Rightarrow> ('s \<times> subdat list) list \<Rightarrow>
   error + (('s \<times> 'r option list list) list \<times> weights)" where
  "subjects_loop fit flt labels w [] = Inr ([], w)"
| "subjects_loop fit flt labels w ((sid, sdata) # rest) =
     bindE (hemis_loop fit flt labels w sdata) (\<lambda>(sres, w').
     bindE (subjects_loop fit flt labels w' rest) (\<lambda>(result, w'').
     Inr ((sid, sres) # result, w'')))"

text \<open>The argument \<^verbatim>\<open>weights\<close> is nothing or a key of the data.\<close>

definition initial_weights :: "string option \<Rightarrow> weights" where
  "initial_weights weights = (case weights of None \<Rightarrow> WNone | Some k \<Rightarrow> WKey k)"

text \<open>\<^verbatim>\<open>if not filter: filter = lambda dat: True\<close> and
  \<^verbatim>\<open>if labels is None: labels = np.arange(1,11)\<close>\<close>

definition filter_or_default :: "(subdat \<Rightarrow> error + mask) option \<Rightarrow> subdat \<Rightarrow> error + mask" where
  "filter_or_default filt = (case filt of None \<Rightarrow> (\<lambda>dat. Inr (MScalar True)) | Some f \<Rightarrow> f)"

definition labels_or_default :: "real list option \<Rightarrow> real list" where
  "labels_or_default labels = (case labels of None \<Rightarrow> map real [1..<11] | Some ls \<Rightarrow> ls)"

definition fitall_cmag_cumecc ::
  "(('p \<Rightarrow> error + real option) \<Rightarrow> 'p \<Rightarrow> string option \<Rightarrow> error + 'p optimize_result) \<Rightarrow>
   ('s \<times> subdat list) list \<Rightarrow>
   (real list \<Rightarrow> 'p \<Rightarrow> error + real option list) \<Rightarrow> 'p \<Rightarrow>
   string option \<Rightarrow> lossfn \<Rightarrow> string option \<Rightarrow>
   (('p \<Rightarrow> error + 'p) \<times> ('p \<Rightarrow> error + 'p)) option \<Rightarrow>
   (subdat \<Rightarrow> error + mask) option \<Rightarrow> real list option \<Rightarrow>
   error + ('s \<times> 'p optimize_result option list list) list" where
  "fitall_cmag_cumecc minimize data formfn params0 method lossfn weights argtx filt labels =
     (let fit = (\<lambda>xi yi si w.
            fit_cmag_cumecc minimize xi yi si formfn params0 method lossfn w argtx)
      in bindE (subjects_loop fit (filter_or_default filt) (labels_or_default labels)
                  (initial_weights weights) data)
           (\<lambda>(result, w). Inr result))"


definition fitted :: "(subdat \<Rightarrow> error + mask) \<Rightarrow> subdat \<times> real \<Rightarrow> bool" where
  "fitted flt c =
     (case select_cell flt (fst c) (snd c) of Inl e \<Rightarrow> False | Inr ii \<Rightarrow> 5 \<le> count_true ii)"


section \<open>Loading the data of a hemisphere\<close>

text \<open>
  \<^verbatim>\<open>def subdata(sid, h, vdpath='/data/crcns2021/results/proc/labels/mean',
              cachepath='/data/crowding/hcp-cmag', overwrite=False):
      cachefile = Path(cachepath) / f'{h}.{sid}.npy'
      if overwrite or not cachefile.is_file():
          sub = ny.data['hcp_lines'].subjects[sid]
          hem = sub.hemis[h]
          lbl = np.array(hem.prop('visual_area'))
          vdpath = Path(vdpath) / str(sid)
          vpath = vdpath / f'{h}.ventral_label.mgz'
          dpath = vdpath / f'{h}.dorsal_label.mgz'
          if not vpath.is_file():
              raise RuntimeError(f"ventral file not found for subject {sid}/{h}")
          if not dpath.is_file():
              raise RuntimeError(f"dorsal file not found for subject {sid}/{h}")
          vlbl = ny.load(str(vpath))
          dlbl = ny.load(str(dpath))
          ii = (lbl == 0)
          lbl[ii] = vlbl[ii]
          ii = (lbl == 0)
          lbl[ii] = dlbl[ii]
          nz = (lbl > 0)
          x = hem.prop('prf_x') ... a = hem.prop('midgray_surface_area')
          rows = np.stack([lbl, x, y, r, t, e, a, w], axis=0, dtype=np.float32)
          dat = rows[:, nz]
          np.save(cachefile, dat)
      rows = np.load(cachefile)
      (lbl, x, y, r, t, e, a, w) = rows
      return dict(label=lbl, x=x, y=y, sigma=r, polar_angle=t, eccentricity=e,
                  surface_area=a, cod=w)\<close>

  The file system is a map from a path to the content of the file there; the function
  returns it updated. The subject id \<open>sid\<close> is the text that \<^verbatim>\<open>str(sid)\<close> puts into
  the paths and the messages. The neuropythy dataset is the parameter \<open>dataset\<close>: the
  lookup of a subject's hemisphere, which may raise; the field \<open>prop_k\<close> of the
  hemisphere is \<^verbatim>\<open>hem.prop('k')\<close>.
\<close>

datatype file_content = NpyFile "real list list" | MgzFile "real list"

type_synonym fs = "string \<rightharpoonup> file_content"

record hemi =
  prop_visual_area :: "real list"
  prop_prf_x :: "real list"
  prop_prf_y :: "real list"
  prop_prf_radius :: "real list"
  prop_prf_polar_angle :: "real list"
  prop_prf_eccentricity :: "real list"
  prop_prf_variance_explained :: "real list"
  prop_midgray_surface_area :: "real list"

definition is_file :: "fs \<Rightarrow> string \<Rightarrow> bool" where
  "is_file files p = (files p \<noteq> None)"

text \<open>
  \<^verbatim>\<open>Path(a) / b\<close> for a relative \<open>b\<close> and an \<open>a\<close> that does not end in a separator, as
  the default directories are. Paths are compared as the strings built here.
\<close>

definition path_join :: "string \<Rightarrow> string \<Rightarrow> string" where
  "path_join a b = a @ ''/'' @ b"

definition cache_path :: "string \<Rightarrow> string \<Rightarrow> string \<Rightarrow> string" where
  "cache_path cachepath sid h = path_join cachepath (h @ ''.'' @ sid @ ''.npy'')"

definition ventral_path :: "string \<Rightarrow> string \<Rightarrow> string \<Rightarrow> string" where
  "ventral_path vdpath sid h = path_join (path_join vdpath sid) (h @ ''.ventral_label.mgz'')"

definition dorsal_path :: "string \<Rightarrow> string \<Rightarrow> string \<Rightarrow> string" where
  "dorsal_path vdpath sid h = path_join (path_join vdpath sid) (h @ ''.dorsal_label.mgz'')"

definition ny_load :: "fs \<Rightarrow> string \<Rightarrow> error + real list" where
  "ny_load files p =
     (case files p of
        None \<Rightarrow> Inl FileNotFoundError
      | Some (MgzFile v) \<Rightarrow> Inr v
      | Some (NpyFile rows) \<Rightarrow> Inl ValueError)"

definition np_load :: "fs \<Rightarrow> string \<Rightarrow> error + real list list" where
  "np_load files p =
     (case files p of
        None \<Rightarrow> Inl FileNotFoundError
      | Some (NpyFile rows) \<Rightarrow> Inr rows
      | Some (MgzFile v) \<Rightarrow> Inl ValueError)"

text \<open>\<^verbatim>\<open>ii = (lbl == 0); lbl[ii] = other[ii]\<close>\<close>

definition fill_zero :: "real list \<Rightarrow> real list \<Rightarrow> error + real list" where
  "fill_zero lbl other =
     (if length other = length lbl
      then Inr (map2 (\<lambda>l v. if l = 0 then v else l) lbl other)
      else Inl IndexError)"

text \<open>\<^verbatim>\<open>np.stack\<close> raises ValueError unless all the arrays have the same length.\<close>

definition np_stack :: "real list list \<Rightarrow> error + real list list" where
  "np_stack rows =
     (if rows = [] then Inl ValueError
      else if \<forall>r \<in> set rows. length r = length (hd rows) then Inr rows
      else Inl ValueError)"

text \<open>\<^verbatim>\<open>rows[:, nz]\<close>: the columns of the mask.\<close>

definition select_columns :: "real list list \<Rightarrow> bool list \<Rightarrow> error + real list list" where
  "select_columns rows nz =
     (if \<forall>r \<in> set rows. length r = length nz
      then Inr (map (\<lambda>r. map fst (filter snd (zip r nz))) rows)
      else Inl IndexError)"

definition build_cache :: "fs \<Rightarrow> string \<Rightarrow> string \<Rightarrow> string \<Rightarrow> string \<Rightarrow> hemi \<Rightarrow> error + fs" where
  "build_cache files cachefile sid h vdpath hem =
     (let lbl = prop_visual_area hem;
          vpath = ventral_path vdpath sid h;
          dpath = dorsal_path vdpath sid h
      in if \<not> is_file files vpath
         then Inl (RuntimeError (''ventral file not found for subject '' @ sid @ ''/'' @ h))
         else if \<not> is_file files dpath
         then Inl (RuntimeError (''dorsal file not found for subject '' @ sid @ ''/'' @ h))
         else
           bindE (ny_load files vpath) (\<lambda>vlbl.
           bindE (ny_load files dpath) (\<lambda>dlbl.
           bindE (fill_zero lbl vlbl) (\<lambda>lbl1.
           bindE (fill_zero lbl1 dlbl) (\<lambda>lbl2.
             let nz = map (\<lambda>v. 0 < v) lbl2 in
             bindE (np_stack [lbl2, prop_prf_x hem, prop_prf_y hem, prop_prf_radius hem,
                              prop_prf_polar_angle hem, prop_prf_eccentricity hem,
                              prop_midgray_surface_area hem, prop_prf_variance_explained hem]) (\<lambda>rows.
             bindE (select_columns rows nz) (\<lambda>dat.
             Inr (files(cachefile \<mapsto> NpyFile dat)))))))))"

definition subdata ::
  "(string \<Rightarrow> string \<Rightarrow> error + hemi) \<Rightarrow> fs \<Rightarrow> string \<Rightarrow> string \<Rightarrow> string \<Rightarrow> string \<Rightarrow> bool \<Rightarrow>
   error + (subdat \<times> fs)" where
  "subdata dataset files sid h vdpath cachepath overwrite =
     (let cachefile = cache_path cachepath sid h in
      bindE (if overwrite \<or> \<not> is_file files cachefile
             then bindE (dataset sid h) (\<lambda>hem. build_cache files cachefile sid h vdpath hem)
             else Inr files) (\<lambda>files'.
      bindE (np_load files' cachefile) (\<lambda>rows.
        case rows of
          [lbl, x, y, r, t, e, a, w] \<Rightarrow>
            Inr ([''label'' \<mapsto> lbl, ''x'' \<mapsto> x, ''y'' \<mapsto> y, ''sigma'' \<mapsto> r,
                  ''polar_angle'' \<mapsto> t, ''eccentricity'' \<mapsto> e,
                  ''surface_area'' \<mapsto> a, ''cod'' \<mapsto> w], files')
        | _ \<Rightarrow> Inl ValueError)))"


text \<open>
  The data of a hemisphere as \<^verbatim>\<open>subdata\<close> returns it: the arrays the batch fit reads
  are there and have one entry per vertex.
\<close>

definition well_formed :: "subdat \<Rightarrow> bool" where
  "well_formed hdata =
     (case (hdata ''label'', hdata ''x'', hdata ''y'', hdata ''surface_area'') of
        (Some lab, Some xs, Some ys, Some sa) \<Rightarrow>
          length xs = length lab \<and> length ys = length lab \<and> length sa = length lab
      | _ \<Rightarrow> False)"


section \<open>The state of the variable weights\<close>



section \<open>Example data\<close>

text \<open>
  A hemisphere of ten vertices, five in visual area 1 and five in visual area 2, and an
  optimizer that returns its starting point without a step.
\<close>

definition demo_hdata :: subdat where
  "demo_hdata =
     [''label'' \<mapsto> [1, 1, 1, 1, 1, 2, 2, 2, 2, 2],
      ''x'' \<mapsto> [0, 1, 2, 3, 4, 0, 1, 2, 3, 4],
      ''y'' \<mapsto> [0, 0, 0, 0, 0, 0, 0, 0, 0, 0],
      ''sigma'' \<mapsto> [1, 1, 1, 1, 1, 1, 1, 1, 1, 1],
      ''polar_angle'' \<mapsto> [90, 90, 90, 90, 90, 90, 90, 90, 90, 90],
      ''eccentricity'' \<mapsto> [0, 1, 2, 3, 4, 0, 1, 2, 3, 4],
      ''surface_area'' \<mapsto> [1, 1, 1, 1, 1, 2, 2, 2, 2, 2],
      ''cod'' \<mapsto> [1, 1, 1, 1, 1, 1, 1, 1, 1, 1]]"

definition demo_data :: "(string \<times> subdat list) list" where
  "demo_data = [(''s1'', [demo_hdata])]"

definition demo_minimize ::
  "(real list \<Rightarrow> error + real option) \<Rightarrow> real list \<Rightarrow> string option \<Rightarrow>
   error + real list optimize_result" where
  "demo_minimize stepfn x0 method = Inr \<lparr>opt_x = x0, opt_fun = None, opt_success = False\<rparr>"

definition demo_formfn :: "real list \<Rightarrow> real list \<Rightarrow> error + real option list" where
  "demo_formfn eccen params =
     (case params of
        [a, b] \<Rightarrow> Inr (map (\<lambda>v. HH91_integral v a b) eccen)
      | _ \<Rightarrow> Inl TypeError)"

definition demo_filter_subdat :: subdat where
  "demo_filter_subdat = [''eccentricity'' \<mapsto> [7, 3, 5], ''polar_angle'' \<mapsto> [0, 10, 20]]"

definition demo_hemi :: hemi where
  "demo_hemi = \<lparr>prop_visual_area = [1, 0], prop_prf_x = [1, 2], prop_prf_y = [0, 0],
     prop_prf_radius = [1, 1], prop_prf_polar_angle = [90, 90], prop_prf_eccentricity = [1, 2],
     prop_prf_variance_explained = [1, 1], prop_midgray_surface_area = [3, 4]\<rparr>"

definition demo_dataset :: "string \<Rightarrow> string \<Rightarrow> error + hemi" where
  "demo_dataset sid h = (if sid = ''100610'' \<and> (h = ''lh'' \<or> h = ''rh'') then Inr demo_hemi
                         else Inl (KeyError sid))"

definition demo_cached_files :: fs where
  "demo_cached_files =
     [cache_path ''/cache'' ''100610'' ''lh'' \<mapsto> NpyFile [[1], [1], [0], [1], [90], [1], [3], [1]]]"

definition demo_ventral_only_files :: fs where
  "demo_ventral_only_files = [ventral_path ''/labels'' ''100610'' ''lh'' \<mapsto> MgzFile [0, 5]]"


section \<open>Properties\<close>

subsection \<open>Arrays\<close>

lemma bindE_Inr [simp]: "bindE (Inr v) f = f v"
  by (simp add: bindE_def)

lemma bindE_Inl [simp]: "bindE (Inl e) f = Inl e"
  by (simp add: bindE_def)

lemma broadcast2_same_length:
  "length xs = length ys \<Longrightarrow> broadcast2 f xs ys = Inr (map2 f xs ys)"
  by (simp add: broadcast2_def)


lemma set_argsort: "set (argsort ks) = {0..<length ks}"
  by (simp add: argsort_def)



lemma np_take_argsort:
  "length ks \<le> length vs \<Longrightarrow> np_take vs (argsort ks) = Inr (map (\<lambda>i. vs ! i) (argsort ks))"
  by (auto simp: np_take_def set_argsort)

lemma empirical_curve_value:
  assumes "length prf_y = length prf_x" "length sa = length prf_x"
  shows "empirical_curve prf_x prf_y sa =
           Inr (map (\<lambda>i. map2 hypot prf_x prf_y ! i) (argsort (map2 hypot prf_x prf_y)),
                np_cumsum (map (\<lambda>i. sa ! i) (argsort (map2 hypot prf_x prf_y))))"
  using assms
  by (simp add: empirical_curve_def np_hypot_def broadcast2_same_length np_take_argsort Let_def)

lemma length_cumsum_from [simp]: "length (cumsum_from acc vs) = length vs"
  by (induction vs arbitrary: acc) auto


















subsection \<open>Filters\<close>

lemma getitem_Some: "d k = Some v \<Longrightarrow> getitem d k = Inr v"
  by (simp add: getitem_def)

lemma np_and_same_length:
  "length xs = length ys \<Longrightarrow> np_and xs ys = Inr (map2 (\<and>) xs ys)"
  by (simp add: np_and_def broadcast2_def)

lemma np_and_map_map:
  "np_and (map f zs) (map g zs) = Inr (map (\<lambda>z. f z \<and> g z) zs)"
  by (simp add: np_and_same_length zip_map_map zip_same_conv_map)

lemma np_and_single_left:
  "np_and [p] ys = Inr (map (\<lambda>v. p \<and> v) ys)"
  by (cases ys rule: list.exhaust; cases "tl ys") (auto simp: np_and_def broadcast2_def)

lemma np_and_single_right:
  "np_and xs [q] = Inr (map (\<lambda>v. v \<and> q) xs)"
  by (cases xs rule: list.exhaust; cases "tl xs") (auto simp: np_and_def broadcast2_def)

lemma np_and_mismatch:
  "length xs \<noteq> length ys \<Longrightarrow> length xs \<noteq> 1 \<Longrightarrow> length ys \<noteq> 1 \<Longrightarrow> np_and xs ys = Inl ValueError"
  by (simp add: np_and_def broadcast2_def)

lemma filt_base_value:
  "d ''eccentricity'' = Some ecc \<Longrightarrow> filt_base d m = Inr (map (\<lambda>v. v < m) ecc)"
  by (simp add: filt_base_def getitem_Some)

lemma filt_ring_value:
  "d ''eccentricity'' = Some ecc \<Longrightarrow>
   filt_ring d e0 e1 = Inr (map (\<lambda>v. v < 7 \<and> e0 \<le> v \<and> v \<le> e1) ecc)"
  by (simp add: filt_ring_def filt_base_value getitem_Some np_and_map_map conj_assoc)

lemma filt_wedge_zip:
  assumes "d ''eccentricity'' = Some (map fst zs)" "d ''polar_angle'' = Some (map snd zs)"
  shows "filt_wedge d a0 a1 = Inr (map (\<lambda>z. fst z < 7 \<and> a0 \<le> snd z \<and> snd z \<le> a1) zs)"
  using assms
  by (simp add: filt_wedge_def filt_base_value getitem_Some np_and_map_map conj_assoc)

lemma filt_ring_zip:
  assumes "d ''eccentricity'' = Some (map fst zs)"
  shows "filt_ring d e0 e1 = Inr (map (\<lambda>z. fst z < 7 \<and> e0 \<le> fst z \<and> fst z \<le> e1) zs)"
  using assms by (simp add: filt_ring_value comp_def)

lemma filt_base_zip:
  assumes "d ''eccentricity'' = Some (map fst zs)"
  shows "filt_base d m = Inr (map (\<lambda>z. fst z < m) zs)"
  using assms by (simp add: filt_base_value comp_def)

lemma filt_sect_zip:
  assumes "d ''eccentricity'' = Some (map fst zs)" "d ''polar_angle'' = Some (map snd zs)"
  shows "filt_sect d a0 a1 e0 e1 =
           Inr (map (\<lambda>z. fst z < 7 \<and> a0 \<le> snd z \<and> snd z \<le> a1 \<and> e0 \<le> fst z \<and> fst z \<le> e1) zs)"
  using assms
  by (auto simp: filt_sect_def filt_wedge_zip filt_ring_zip filt_base_zip np_and_map_map)

lemma wedge_ring_base_zip:
  assumes "d ''eccentricity'' = Some (map fst zs)" "d ''polar_angle'' = Some (map snd zs)"
  shows "wedge_ring_base d a0 a1 e0 e1 =
           Inr (map (\<lambda>z. fst z < 7 \<and> a0 \<le> snd z \<and> snd z \<le> a1 \<and> e0 \<le> fst z \<and> fst z \<le> e1) zs)"
  using assms
  by (auto simp: wedge_ring_base_def filt_wedge_zip filt_ring_zip filt_base_zip np_and_map_map)

lemma map2_fst_snd: "map2 f (map fst zs) (map snd zs) = map (\<lambda>z. f (fst z) (snd z)) zs"
  by (simp add: zip_map_fst_snd case_prod_beta)

lemma unzip_same_length:
  assumes "length ang = length ecc"
  obtains zs where "ecc = map fst zs" "ang = map snd zs"
  using assms by (metis map_fst_zip map_snd_zip)

lemma filt_sect_single_ecc:
  assumes "d ''eccentricity'' = Some [e]" "d ''polar_angle'' = Some ang"
  shows "filt_sect d a0 a1 e0 e1 = wedge_ring_base d a0 a1 e0 e1"
  using assms
  by (auto simp: filt_sect_def wedge_ring_base_def filt_wedge_def filt_ring_def filt_base_def
      getitem_Some np_and_single_left np_and_single_right np_and_map_map)

lemma filt_sect_single_ang:
  assumes "d ''eccentricity'' = Some ecc" "d ''polar_angle'' = Some [a]"
  shows "filt_sect d a0 a1 e0 e1 = wedge_ring_base d a0 a1 e0 e1"
  using assms
  by (auto simp: filt_sect_def wedge_ring_base_def filt_wedge_def filt_ring_def filt_base_def
      getitem_Some np_and_single_left np_and_single_right np_and_map_map)

lemma filt_sect_mismatch:
  assumes "d ''eccentricity'' = Some ecc" "d ''polar_angle'' = Some ang"
    "length ang \<noteq> length ecc" "length ecc \<noteq> 1" "length ang \<noteq> 1"
  shows "filt_sect d a0 a1 e0 e1 = Inl ValueError" "wedge_ring_base d a0 a1 e0 e1 = Inl ValueError"
  using assms
  by (auto simp: filt_sect_def wedge_ring_base_def filt_wedge_def filt_ring_def filt_base_def
      getitem_Some np_and_mismatch)

text \<open>
  Claim C5. For a mapping \<open>d\<close> that holds the eccentricities and the polar angles, and for
  all bounds, \<^verbatim>\<open>filt_sect(d, a0, a1, e0, e1)\<close> is
  \<^verbatim>\<open>filt_wedge(d, a0, a1) & filt_ring(d, e0, e1) & filt_base(d)\<close>: the same mask, or
  the same ValueError when the two arrays cannot be broadcast together.
\<close>

theorem filt_sect_conjunction:
  assumes e: "d ''eccentricity'' = Some ecc" and a: "d ''polar_angle'' = Some ang"
  shows "filt_sect d a0 a1 e0 e1 = wedge_ring_base d a0 a1 e0 e1"
proof -
  consider (same) "length ang = length ecc"
    | (one_ecc) "length ecc = 1"
    | (one_ang) "length ang = 1"
    | (bad) "length ang \<noteq> length ecc" "length ecc \<noteq> 1" "length ang \<noteq> 1"
    by blast
  then show ?thesis
  proof cases
    case same
    then obtain zs where "ecc = map fst zs" "ang = map snd zs"
      by (rule unzip_same_length)
    with e a show ?thesis by (simp add: filt_sect_zip wedge_ring_base_zip)
  next
    case one_ecc
    then obtain v where "ecc = [v]" by (cases ecc) auto
    with e a show ?thesis by (simp add: filt_sect_single_ecc)
  next
    case one_ang
    then obtain v where "ang = [v]" by (cases ang) auto
    with e a show ?thesis by (simp add: filt_sect_single_ang)
  next
    case bad
    with e a show ?thesis by (simp add: filt_sect_mismatch)
  qed
qed

text \<open>Three vertices at the eccentricities 7, 3 and 5.\<close>

theorem filt_sect_conjunction_witness:
  "demo_filter_subdat ''eccentricity'' = Some [7, 3, 5]
   \<and> demo_filter_subdat ''polar_angle'' = Some [0, 10, 20]
   \<and> filt_sect demo_filter_subdat 0 10 3 10 = wedge_ring_base demo_filter_subdat 0 10 3 10
   \<and> filt_sect demo_filter_subdat 0 10 3 10 = Inr [False, True, False]"
proof -
  have e: "demo_filter_subdat ''eccentricity'' = Some [7, 3, 5]"
    and a: "demo_filter_subdat ''polar_angle'' = Some [0, 10, 20]"
    by (simp_all add: demo_filter_subdat_def)
  have "filt_sect demo_filter_subdat 0 10 3 10 = Inr [False, True, False]"
    using filt_sect_zip [of demo_filter_subdat "[(7, 0), (3, 10), (5, 20)]" 0 10 3 10] e a
    by simp
  with filt_sect_conjunction [OF e a, of 0 10 3 10] e a show ?thesis by simp
qed

text \<open>
  Claim C9. For a mapping with one eccentricity and one polar angle per vertex, the masks
  of \<^verbatim>\<open>filt_wedge\<close>, \<^verbatim>\<open>filt_ring\<close> and \<^verbatim>\<open>filt_sect\<close> select a vertex exactly when
  its eccentricity is below 7 and its polar angle or its eccentricity lies between the
  bounds, the bounds included. So a vertex of eccentricity 7 or more is never selected,
  whatever the upper bound of the ring.
\<close>

theorem filters_exclude_base_cutoff:
  assumes e: "d ''eccentricity'' = Some ecc" and a: "d ''polar_angle'' = Some ang"
    and l: "length ang = length ecc"
  shows "filt_wedge d a0 a1 = Inr (map2 (\<lambda>e a. e < 7 \<and> a0 \<le> a \<and> a \<le> a1) ecc ang)
       \<and> filt_ring d e0 e1 = Inr (map (\<lambda>e. e < 7 \<and> e0 \<le> e \<and> e \<le> e1) ecc)
       \<and> filt_sect d a0 a1 e0 e1 =
           Inr (map2 (\<lambda>e a. e < 7 \<and> a0 \<le> a \<and> a \<le> a1 \<and> e0 \<le> e \<and> e \<le> e1) ecc ang)
       \<and> (\<forall>m. filt_wedge d a0 a1 = Inr m \<or> filt_ring d e0 e1 = Inr m
                \<or> filt_sect d a0 a1 e0 e1 = Inr m \<longrightarrow>
              length m = length ecc \<and> (\<forall>i < length ecc. m ! i \<longrightarrow> ecc ! i < 7))"
proof -
  obtain zs where zs: "ecc = map fst zs" "ang = map snd zs"
    using l by (rule unzip_same_length)
  have w: "filt_wedge d a0 a1 = Inr (map2 (\<lambda>e a. e < 7 \<and> a0 \<le> a \<and> a \<le> a1) ecc ang)"
    using e a unfolding zs by (simp add: filt_wedge_zip map2_fst_snd)
  have r: "filt_ring d e0 e1 = Inr (map (\<lambda>e. e < 7 \<and> e0 \<le> e \<and> e \<le> e1) ecc)"
    using e by (simp add: filt_ring_value)
  have s: "filt_sect d a0 a1 e0 e1 =
           Inr (map2 (\<lambda>e a. e < 7 \<and> a0 \<le> a \<and> a \<le> a1 \<and> e0 \<le> e \<and> e \<le> e1) ecc ang)"
    using e a unfolding zs by (simp add: filt_sect_zip map2_fst_snd)
  have "\<forall>m. filt_wedge d a0 a1 = Inr m \<or> filt_ring d e0 e1 = Inr m
                \<or> filt_sect d a0 a1 e0 e1 = Inr m \<longrightarrow>
              length m = length ecc \<and> (\<forall>i < length ecc. m ! i \<longrightarrow> ecc ! i < 7)"
    unfolding w r s using l by auto
  with w r s show ?thesis by blast
qed

text \<open>
  Three vertices at the eccentricities 7, 3 and 5 and the polar angles 0, 10 and 20: the
  ring from 3 to 10 leaves the first out and takes the second, the wedge from 0 to 10
  takes the second and leaves the third out.
\<close>

theorem filters_exclude_base_cutoff_witness:
  "demo_filter_subdat ''eccentricity'' = Some [7, 3, 5]
   \<and> demo_filter_subdat ''polar_angle'' = Some [0, 10, 20]
   \<and> filt_wedge demo_filter_subdat 0 10 = Inr [False, True, False]
   \<and> filt_ring demo_filter_subdat 3 10 = Inr [False, True, True]
   \<and> filt_sect demo_filter_subdat 0 10 3 10 = Inr [False, True, False]"
proof -
  have e: "demo_filter_subdat ''eccentricity'' = Some [7, 3, 5]"
    and a: "demo_filter_subdat ''polar_angle'' = Some [0, 10, 20]"
    by (simp_all add: demo_filter_subdat_def)
  from filters_exclude_base_cutoff [OF e a, of 0 10 3 10] e a show ?thesis by simp
qed

subsection \<open>The model forms\<close>

lemma HH91_value: "x + b \<noteq> 0 \<Longrightarrow> HH91 x a b = Some ((a / (x + b)) ^ 2)"
  by (simp add: HH91_def fdiv_def)

lemma HH91_integral_value:
  assumes b: "0 < b" and xb: "0 < x + b"
  shows "HH91_integral x a b = Some (a ^ 2 * pi * (ln ((x + b) / b) - x / (x + b)))"
proof -
  have "0 < (x + b) / b" using xb b by (rule divide_pos_pos)
  then show ?thesis
    using b xb by (simp add: HH91_integral_def fdiv_def flog_def Let_def not_le)
qed


lemma ln_gap_pos:
  fixes b x :: real
  assumes "0 < b" "0 < x"
  shows "0 < ln ((x + b) / b) - x / (x + b)"
proof -
  have xb: "0 < x + b" using assms by linarith
  have pos: "0 < b / (x + b)" using assms xb by (intro divide_pos_pos)
  have ne: "b / (x + b) \<noteq> 1" using assms by (simp add: field_simps)
  have le: "ln (b / (x + b)) \<le> b / (x + b) - 1" using ln_le_minus_one [OF pos] .
  have "ln (b / (x + b)) \<noteq> b / (x + b) - 1"
    using ln_eq_minus_one [OF pos] ne by blast
  with le have "ln (b / (x + b)) < b / (x + b) - 1" by linarith
  moreover have "ln (b / (x + b)) = - ln ((x + b) / b)"
    using assms xb by (simp add: ln_div)
  moreover have "b / (x + b) - 1 = - (x / (x + b))"
    using assms xb by (simp add: field_simps)
  ultimately show ?thesis by linarith
qed




lemma HH91_integral_deriv:
  assumes "0 < b" "0 < r + b"
  shows "((\<lambda>t. the (HH91_integral t a b)) has_real_derivative (pi * r * the (HH91 r a b))) (at r)"
proof -
  have d: "((\<lambda>t. a ^ 2 * pi * (ln ((t + b) / b) - t / (t + b))) has_real_derivative
             (pi * r * (a / (r + b)) ^ 2)) (at r)"
    using assms
    apply (auto intro!: derivative_eq_intros)
    apply (simp add: power2_eq_square divide_simps)
    done
  have ev: "eventually (\<lambda>t. the (HH91_integral t a b) = a ^ 2 * pi * (ln ((t + b) / b) - t / (t + b))) (nhds r)"
  proof -
    have "eventually (\<lambda>t. - b < t) (nhds r)"
      unfolding eventually_nhds using assms
      by (intro exI [of _ "{- b <..}"]) auto
    then show ?thesis
      by eventually_elim (use assms in \<open>simp add: HH91_integral_value\<close>)
  qed
  have "((\<lambda>t. the (HH91_integral t a b)) has_real_derivative (pi * r * (a / (r + b)) ^ 2)) (at r)"
    using DERIV_cong_ev [OF refl ev refl] d by blast
  then show ?thesis using assms by (simp add: HH91_value)
qed

lemma M_HH_deriv:
  assumes "0 < b" "0 < r + b"
  shows "((\<lambda>t. M_HH t a b) has_real_derivative (2 * pi * r * (a / (r + b)) ^ 2)) (at r)"
  unfolding M_HH_def using assms
  apply (auto intro!: derivative_eq_intros)
  apply (simp add: power2_eq_square divide_simps add.commute)
  done

lemma M_HH_zero: "0 < b \<Longrightarrow> M_HH 0 a b = 0"
  by (simp add: M_HH_def)

lemma HH91_integral_half: 
  assumes "0 < b" "0 < r + b"
  shows "HH91_integral r a b = Some (M_HH r a b / 2)"
  using assms by (simp add: HH91_integral_value M_HH_def add.commute)

text \<open>
  Claim C4. The integral of the areal model over the disk of radius \<open>r\<close> is the function
  that vanishes at 0 and has the derivative \<open>2 pi r m(r)\<close>: the \<open>M_HH\<close> of the
  repository's notes. \<^verbatim>\<open>HH91_integral\<close> is half of it. At \<open>r = 1\<close>, \<open>a = 1\<close>, \<open>b = 1\<close> the
  code returns \<open>pi (ln 2 - 1/2)\<close>, the integral is \<open>2 pi (ln 2 - 1/2)\<close>, and the derivative
  of the code's function is not \<open>2 pi r m(r)\<close>.
\<close>

theorem HH91_integral_half_of_M_HH:
  "HH91_integral 0 1 1 = Some 0 \<and> M_HH 0 1 1 = 0
   \<and> HH91_integral 1 1 1 = Some (pi * (ln 2 - 1 / 2))
   \<and> M_HH 1 1 1 = 2 * pi * (ln 2 - 1 / 2)
   \<and> HH91_integral 1 1 1 \<noteq> Some (M_HH 1 1 1)
   \<and> ((\<lambda>r. M_HH r 1 1) has_real_derivative 2 * pi * 1 * the (HH91 1 1 1)) (at 1)
   \<and> \<not> ((\<lambda>r. the (HH91_integral r 1 1)) has_real_derivative 2 * pi * 1 * the (HH91 1 1 1)) (at 1)"
proof -
  have g: "0 < ln (2::real) - 1 / 2" using ln_gap_pos [of 1 1] by simp
  have v: "HH91_integral 1 1 1 = Some (pi * (ln 2 - 1 / 2))"
    using HH91_integral_value [of 1 1 1] by simp
  have m: "M_HH 1 1 1 = 2 * pi * (ln 2 - 1 / 2)" by (simp add: M_HH_def)
  have ne: "HH91_integral 1 1 1 \<noteq> Some (M_HH 1 1 1)"
    using g by (simp add: v m)
  have h: "the (HH91 1 1 1) = 1 / 4" by (simp add: HH91_value power2_eq_square)
  have d1: "((\<lambda>r. M_HH r 1 1) has_real_derivative 2 * pi * 1 * the (HH91 1 1 1)) (at 1)"
    using M_HH_deriv [of 1 1 1] by (simp add: HH91_value)
  have d2: "((\<lambda>r. the (HH91_integral r 1 1)) has_real_derivative pi * 1 * the (HH91 1 1 1)) (at 1)"
    using HH91_integral_deriv [of 1 1 1] by simp
  have d3: "\<not> ((\<lambda>r. the (HH91_integral r 1 1)) has_real_derivative 2 * pi * 1 * the (HH91 1 1 1)) (at 1)"
  proof
    assume "((\<lambda>r. the (HH91_integral r 1 1)) has_real_derivative 2 * pi * 1 * the (HH91 1 1 1)) (at 1)"
    from DERIV_unique [OF this d2] show False by (simp add: h)
  qed
  have z: "HH91_integral 0 1 1 = Some 0" "M_HH 0 1 1 = 0"
    using HH91_integral_value [of 1 0 1] by (simp_all add: M_HH_def)
  show ?thesis using z v m ne d1 d3 by blast
qed




subsection \<open>The batch fit\<close>

lemma length_np_mask:
  "np_mask xs m = Inr sel \<Longrightarrow> length sel = count_true m"
proof -
  have "length xs = length m \<Longrightarrow> length (filter snd (zip xs m)) = length (filter (\<lambda>v. v) m)"
    by (induction xs m rule: list_induct2) auto
  then show "np_mask xs m = Inr sel \<Longrightarrow> length sel = count_true m"
    by (auto simp: np_mask_def count_true_def split: if_splits)
qed

lemma fit_cell_result:
  assumes "fit_cell fit flt w hdata lbl = Inr (r, w')"
  shows "(r = None) = (\<not> fitted flt (hdata, lbl))"
  using assms
  by (auto simp: fit_cell_def fitted_def bindE_def split: sum.splits if_splits)

lemma fit_cell_small:
  assumes "select_cell flt hdata lbl = Inr ii" "count_true ii < 5"
  shows "fit_cell fit flt w hdata lbl = Inr (None, w)"
  using assms by (simp add: fit_cell_def)


lemma fit_cell_array_raises:
  assumes "fitted flt (hdata, lbl)" "2 \<le> length a"
  shows "fit_cell fit flt (WArr a) hdata lbl = Inl ValueError"
  using assms
  by (auto simp: fit_cell_def fitted_def rebind_weights_def truth_value_def bindE_def
      split: sum.splits)








lemma select_cell_demo:
  "select_cell (filter_or_default None) demo_hdata 1
     = Inr [True, True, True, True, True, False, False, False, False, False]"
  "select_cell (filter_or_default None) demo_hdata 2
     = Inr [False, False, False, False, False, True, True, True, True, True]"
  by (simp_all add: select_cell_def filter_or_default_def demo_hdata_def getitem_def mask_and_def)

lemma fitted_demo:
  "fitted (filter_or_default None) (demo_hdata, 1)" "fitted (filter_or_default None) (demo_hdata, 2)"
  by (simp_all add: fitted_def select_cell_demo count_true_def)



lemma fit_demo_minimize:
  assumes "length yi = length xi" "length si = length xi"
  shows "fit_cmag_cumecc demo_minimize xi yi si formfn p0 m lossfn w None
           = Inr \<lparr>opt_x = p0, opt_fun = None, opt_success = False\<rparr>"
  using assms
  by (simp add: fit_cmag_cumecc_def empirical_curve_value demo_minimize_def Let_def)

lemma demo_hdata_items:
  "getitem demo_hdata ''x'' = Inr [0, 1, 2, 3, 4, 0, 1, 2, 3, 4]"
  "getitem demo_hdata ''y'' = Inr [0, 0, 0, 0, 0, 0, 0, 0, 0, 0]"
  "getitem demo_hdata ''surface_area'' = Inr [1, 1, 1, 1, 1, 2, 2, 2, 2, 2]"
  "getitem demo_hdata ''cod'' = Inr [1, 1, 1, 1, 1, 1, 1, 1, 1, 1]"
  by (simp_all add: getitem_def demo_hdata_def)

lemma fit_cell_demo_first:
  "fit_cell (\<lambda>xi yi si w. fit_cmag_cumecc demo_minimize xi yi si formfn p0 m lossfn w None)
     (filter_or_default None) (WKey ''cod'') demo_hdata 1
   = Inr (Some \<lparr>opt_x = p0, opt_fun = None, opt_success = False\<rparr>, WArr [1, 1, 1, 1, 1])"
  by (simp add: fit_cell_def select_cell_demo count_true_def rebind_weights_def truth_value_def
      weights_lookup_def demo_hdata_items np_mask_def fit_demo_minimize)

lemma fit_cell_demo_second:
  "fit_cell fit (filter_or_default None) (WArr [1, 1, 1, 1, 1]) demo_hdata 2 = Inl ValueError"
  by (rule fit_cell_array_raises) (simp_all add: fitted_demo)

lemma fit_cell_demo_unweighted:
  "fit_cell (\<lambda>xi yi si w. fit_cmag_cumecc demo_minimize xi yi si formfn p0 m lossfn w None)
     (filter_or_default None) WNone demo_hdata 1
   = Inr (Some \<lparr>opt_x = p0, opt_fun = None, opt_success = False\<rparr>, WNone)"
  "fit_cell (\<lambda>xi yi si w. fit_cmag_cumecc demo_minimize xi yi si formfn p0 m lossfn w None)
     (filter_or_default None) WNone demo_hdata 2
   = Inr (Some \<lparr>opt_x = p0, opt_fun = None, opt_success = False\<rparr>, WNone)"
  by (simp_all add: fit_cell_def select_cell_demo count_true_def rebind_weights_def truth_value_def
      weights_lookup_def demo_hdata_items np_mask_def fit_demo_minimize)

text \<open>What the batch fit records when it returns.\<close>

lemma labels_loop_records:
  "labels_loop fit flt w hdata lbls = Inr (hres, w') \<Longrightarrow>
   map (\<lambda>r. r = None) hres = map (\<lambda>lbl. \<not> fitted flt (hdata, lbl)) lbls"
proof (induction lbls arbitrary: w hres)
  case Nil
  then show ?case by simp
next
  case (Cons lbl lbls)
  from Cons.prems obtain r w1 hres1 where
    c: "fit_cell fit flt w hdata lbl = Inr (r, w1)" and
    l: "labels_loop fit flt w1 hdata lbls = Inr (hres1, w')" and
    h: "hres = r # hres1"
    by (auto simp: bindE_def split: sum.splits)
  from fit_cell_result [OF c] Cons.IH [OF l] h show ?case by simp
qed

lemma hemis_loop_records:
  "hemis_loop fit flt labels w sdata = Inr (sres, w') \<Longrightarrow>
   map (map (\<lambda>r. r = None)) sres
     = map (\<lambda>hdata. map (\<lambda>lbl. \<not> fitted flt (hdata, lbl)) labels) sdata"
proof (induction sdata arbitrary: w sres)
  case Nil
  then show ?case by simp
next
  case (Cons hdata sdata)
  from Cons.prems obtain hres w1 sres1 where
    c: "labels_loop fit flt w hdata labels = Inr (hres, w1)" and
    l: "hemis_loop fit flt labels w1 sdata = Inr (sres1, w')" and
    h: "sres = hres # sres1"
    by (auto simp: bindE_def split: sum.splits)
  from labels_loop_records [OF c] Cons.IH [OF l] h show ?case by simp
qed

lemma subjects_loop_records:
  "subjects_loop fit flt labels w data = Inr (result, w') \<Longrightarrow>
   map (\<lambda>(sid, sres). (sid, map (map (\<lambda>r. r = None)) sres)) result
     = map (\<lambda>(sid, sdata). (sid, map (\<lambda>hdata. map (\<lambda>lbl. \<not> fitted flt (hdata, lbl)) labels) sdata)) data"
proof (induction data arbitrary: w result)
  case Nil
  then show ?case by simp
next
  case (Cons sd data)
  obtain sid sdata where sd: "sd = (sid, sdata)" by (cases sd)
  from Cons.prems obtain sres w1 result1 where
    c: "hemis_loop fit flt labels w sdata = Inr (sres, w1)" and
    l: "subjects_loop fit flt labels w1 data = Inr (result1, w')" and
    h: "result = (sid, sres) # result1"
    by (auto simp: sd bindE_def split: sum.splits)
  from hemis_loop_records [OF c] Cons.IH [OF l] h show ?case by (simp add: sd)
qed

lemma fitall_records:
  assumes "fitall_cmag_cumecc minimize data formfn params0 method lossfn weights argtx filt labels
             = Inr result"
  shows "map (\<lambda>(sid, sres). (sid, map (map (\<lambda>r. r = None)) sres)) result
     = map (\<lambda>(sid, sdata). (sid, map (\<lambda>hdata. map (\<lambda>lbl.
              \<not> fitted (filter_or_default filt) (hdata, lbl)) (labels_or_default labels)) sdata)) data"
  using assms
  by (auto simp: fitall_cmag_cumecc_def bindE_def split: sum.splits dest: subjects_loop_records)

text \<open>
  Without weights and without a filter the batch fit returns on well-formed data when
  the single fit does.
\<close>

lemma well_formedD:
  assumes "well_formed hdata"
  shows "\<exists>lab xs ys sa. hdata ''label'' = Some lab \<and> hdata ''x'' = Some xs
           \<and> hdata ''y'' = Some ys \<and> hdata ''surface_area'' = Some sa
           \<and> length xs = length lab \<and> length ys = length lab \<and> length sa = length lab"
  using assms
  by (cases "hdata ''label''"; cases "hdata ''x''"; cases "hdata ''y''";
      cases "hdata ''surface_area''") (simp_all add: well_formed_def)

lemma np_mask_same_length:
  "length m = length xs \<Longrightarrow> \<exists>sel. np_mask xs m = Inr sel \<and> length sel = count_true m"
proof -
  assume "length m = length xs"
  then have "np_mask xs m = Inr (map fst (filter snd (zip xs m)))" by (simp add: np_mask_def)
  with length_np_mask [OF this] show ?thesis by simp
qed

lemma fit_cell_unweighted_returns:
  assumes wf: "well_formed hdata"
    and fit: "\<And>xi yi si. length yi = length xi \<Longrightarrow> length si = length xi \<Longrightarrow> \<exists>r. fit xi yi si None = Inr r"
  shows "\<exists>r. fit_cell fit (filter_or_default None) WNone hdata lbl = Inr (r, WNone)"
proof -
  from well_formedD [OF wf] obtain lab xs ys sa where
    k: "hdata ''label'' = Some lab" "hdata ''x'' = Some xs" "hdata ''y'' = Some ys"
       "hdata ''surface_area'' = Some sa"
    and len: "length xs = length lab" "length ys = length lab" "length sa = length lab"
    by blast
  let ?ii = "map (\<lambda>v. v = lbl) lab"
  have sel: "select_cell (filter_or_default None) hdata lbl = Inr ?ii"
    using k by (simp add: select_cell_def filter_or_default_def getitem_Some mask_and_def)
  show ?thesis
  proof (cases "count_true ?ii < 5")
    case True
    then show ?thesis by (simp add: fit_cell_def sel)
  next
    case False
    obtain xi where xi: "np_mask xs ?ii = Inr xi" "length xi = count_true ?ii"
      using np_mask_same_length [of ?ii xs] len by auto
    obtain yi where yi: "np_mask ys ?ii = Inr yi" "length yi = count_true ?ii"
      using np_mask_same_length [of ?ii ys] len by auto
    obtain si where si: "np_mask sa ?ii = Inr si" "length si = count_true ?ii"
      using np_mask_same_length [of ?ii sa] len by auto
    obtain r where "fit xi yi si None = Inr r"
      using fit [of yi xi si] xi yi si by auto
    then show ?thesis
      using False k xi yi si
      by (simp add: fit_cell_def sel rebind_weights_def truth_value_def getitem_Some
          weights_arg_def)
  qed
qed



lemma labels_loop_unweighted_returns:
  assumes wf: "well_formed hdata"
    and fit: "\<And>xi yi si. length yi = length xi \<Longrightarrow> length si = length xi \<Longrightarrow> \<exists>r. fit xi yi si None = Inr r"
  shows "\<exists>hres. labels_loop fit (filter_or_default None) WNone hdata lbls = Inr (hres, WNone)"
proof (induction lbls)
  case Nil
  then show ?case by simp
next
  case (Cons lbl lbls)
  from fit_cell_unweighted_returns [where fit = fit and hdata = hdata and lbl = lbl, OF wf fit]
  obtain r where
    c: "fit_cell fit (filter_or_default None) WNone hdata lbl = Inr (r, WNone)" by blast
  from Cons.IH obtain hres where
    l: "labels_loop fit (filter_or_default None) WNone hdata lbls = Inr (hres, WNone)" by blast
  show ?case by (rule exI [of _ "r # hres"]) (simp add: c l)
qed

lemma hemis_loop_unweighted_returns:
  assumes wf: "\<forall>hdata \<in> set sdata. well_formed hdata"
    and fit: "\<And>xi yi si. length yi = length xi \<Longrightarrow> length si = length xi \<Longrightarrow> \<exists>r. fit xi yi si None = Inr r"
  shows "\<exists>sres. hemis_loop fit (filter_or_default None) labels WNone sdata = Inr (sres, WNone)"
  using wf
proof (induction sdata)
  case Nil
  then show ?case by simp
next
  case (Cons hdata sdata)
  then have "well_formed hdata" by simp
  from labels_loop_unweighted_returns [where fit = fit and hdata = hdata and lbls = labels, OF this fit]
  obtain hres where
    c: "labels_loop fit (filter_or_default None) WNone hdata labels = Inr (hres, WNone)" by blast
  from Cons obtain sres where
    l: "hemis_loop fit (filter_or_default None) labels WNone sdata = Inr (sres, WNone)" by auto
  show ?case by (rule exI [of _ "hres # sres"]) (simp add: c l)
qed

lemma subjects_loop_unweighted_returns:
  assumes wf: "\<forall>sd \<in> set data. \<forall>hdata \<in> set (snd sd). well_formed hdata"
    and fit: "\<And>xi yi si. length yi = length xi \<Longrightarrow> length si = length xi \<Longrightarrow> \<exists>r. fit xi yi si None = Inr r"
  shows "\<exists>result. subjects_loop fit (filter_or_default None) labels WNone data = Inr (result, WNone)"
  using wf
proof (induction data)
  case Nil
  then show ?case by simp
next
  case (Cons sd data)
  obtain sid sdata where sd: "sd = (sid, sdata)" by (cases sd)
  with Cons.prems have "\<forall>hdata \<in> set sdata. well_formed hdata" by simp
  from hemis_loop_unweighted_returns [where fit = fit and sdata = sdata and labels = labels, OF this fit]
  obtain sres where
    c: "hemis_loop fit (filter_or_default None) labels WNone sdata = Inr (sres, WNone)" by blast
  from Cons obtain result where
    l: "subjects_loop fit (filter_or_default None) labels WNone data = Inr (result, WNone)" by auto
  show ?case by (rule exI [of _ "(sid, sres) # result"]) (simp add: sd c l)
qed

lemma fitall_unweighted_returns:
  assumes wf: "\<forall>sd \<in> set data. \<forall>hdata \<in> set (snd sd). well_formed hdata"
    and fit: "\<And>xi yi si. length yi = length xi \<Longrightarrow> length si = length xi \<Longrightarrow>
        \<exists>r. fit_cmag_cumecc minimize xi yi si formfn params0 method lossfn None argtx = Inr r"
  shows "\<exists>result. fitall_cmag_cumecc minimize data formfn params0 method lossfn None argtx None labels
            = Inr result"
proof -
  let ?fit = "\<lambda>xi yi si w. fit_cmag_cumecc minimize xi yi si formfn params0 method lossfn w argtx"
  have "\<exists>result. subjects_loop ?fit (filter_or_default None) (labels_or_default labels) WNone data
          = Inr (result, WNone)"
    by (rule subjects_loop_unweighted_returns [where fit = ?fit, OF wf]) (rule fit)
  then obtain result where "subjects_loop ?fit (filter_or_default None)
      (labels_or_default labels) WNone data = Inr (result, WNone)" ..
  then show ?thesis by (simp add: fitall_cmag_cumecc_def initial_weights_def)
qed

text \<open>
  Claim C1. A cell with fewer than 5 selected vertices is passed without an exception,
  whatever the variable \<^verbatim>\<open>weights\<close> holds (\<open>fit_cell_small\<close>). Whenever the batch fit
  returns, a cell is recorded as null exactly when fewer than 5 of its vertices are
  selected (\<open>fitall_records\<close>), and without weights it returns when the single fits do
  (\<open>fitall_unweighted_returns\<close>). With a key as
  \<^verbatim>\<open>weights\<close> it does not: on the example data both cells hold five vertices; without
  weights the call records a fit result for each of them, with \<^verbatim>\<open>weights='cod'\<close> the
  call raises ValueError at the second cell and records nothing.
\<close>

theorem fitall_weighted_demo:
  "fitall_cmag_cumecc demo_minimize demo_data demo_formfn [1, 3] None (LossName ''mse'')
      (Some ''cod'') None None (Some [1, 2]) = Inl ValueError
   \<and> fitall_cmag_cumecc demo_minimize demo_data demo_formfn [1, 3] None (LossName ''mse'')
      None None None (Some [1, 2])
     = Inr [(''s1'', [[Some \<lparr>opt_x = [1, 3], opt_fun = None, opt_success = False\<rparr>,
                       Some \<lparr>opt_x = [1, 3], opt_fun = None, opt_success = False\<rparr>]])]"
  by (simp add: fitall_cmag_cumecc_def demo_data_def labels_or_default_def initial_weights_def
      fit_cell_demo_first fit_cell_demo_second fit_cell_demo_unweighted)

subsection \<open>Loading the data of a hemisphere\<close>

lemma build_cache_ventral_missing:
  "\<not> is_file files (ventral_path vdpath sid h) \<Longrightarrow>
   build_cache files cachefile sid h vdpath hem
     = Inl (RuntimeError (''ventral file not found for subject '' @ sid @ ''/'' @ h))"
  by (simp add: build_cache_def Let_def)

lemma build_cache_dorsal_missing:
  "is_file files (ventral_path vdpath sid h) \<Longrightarrow> \<not> is_file files (dorsal_path vdpath sid h) \<Longrightarrow>
   build_cache files cachefile sid h vdpath hem
     = Inl (RuntimeError (''dorsal file not found for subject '' @ sid @ ''/'' @ h))"
  by (simp add: build_cache_def Let_def)

text \<open>
  Claim C8. When the cache file of the hemisphere is absent or \<^verbatim>\<open>overwrite\<close> is set,
  and the dataset has the hemisphere, \<^verbatim>\<open>subdata\<close> raises RuntimeError with a message
  that names the subject and the hemisphere: for a missing ventral file, and for a missing
  dorsal file when the ventral file is there. The error is the result of the call.
\<close>

theorem subdata_missing_label_file:
  assumes "overwrite \<or> \<not> is_file files (cache_path cachepath sid h)"
    and "dataset sid h = Inr hem"
  shows "(\<not> is_file files (ventral_path vdpath sid h) \<longrightarrow>
            subdata dataset files sid h vdpath cachepath overwrite
              = Inl (RuntimeError (''ventral file not found for subject '' @ sid @ ''/'' @ h)))
       \<and> (is_file files (ventral_path vdpath sid h) \<and> \<not> is_file files (dorsal_path vdpath sid h) \<longrightarrow>
            subdata dataset files sid h vdpath cachepath overwrite
              = Inl (RuntimeError (''dorsal file not found for subject '' @ sid @ ''/'' @ h)))"
proof -
  have "subdata dataset files sid h vdpath cachepath overwrite
          = bindE (build_cache files (cache_path cachepath sid h) sid h vdpath hem) (\<lambda>files'.
            bindE (np_load files' (cache_path cachepath sid h)) (\<lambda>rows.
              case rows of
                [lbl, x, y, r, t, e, a, w] \<Rightarrow>
                  Inr ([''label'' \<mapsto> lbl, ''x'' \<mapsto> x, ''y'' \<mapsto> y, ''sigma'' \<mapsto> r,
                        ''polar_angle'' \<mapsto> t, ''eccentricity'' \<mapsto> e,
                        ''surface_area'' \<mapsto> a, ''cod'' \<mapsto> w], files')
              | _ \<Rightarrow> Inl ValueError))"
    using assms unfolding subdata_def Let_def by (simp only: if_True bindE_Inr)
  then show ?thesis
    by (simp add: build_cache_ventral_missing build_cache_dorsal_missing)
qed

text \<open>An empty file system, and one that holds the ventral file only.\<close>

theorem subdata_missing_label_file_witness:
  "demo_dataset ''100610'' ''lh'' = Inr demo_hemi
   \<and> \<not> is_file Map.empty (cache_path ''/cache'' ''100610'' ''lh'')
   \<and> subdata demo_dataset Map.empty ''100610'' ''lh'' ''/labels'' ''/cache'' False
     = Inl (RuntimeError ''ventral file not found for subject 100610/lh'')
   \<and> subdata demo_dataset demo_ventral_only_files ''100610'' ''lh'' ''/labels'' ''/cache'' True
     = Inl (RuntimeError ''dorsal file not found for subject 100610/lh'')"
  using subdata_missing_label_file [of False Map.empty "''/cache''" "''100610''" "''lh''"
      demo_dataset demo_hemi "''/labels''"]
    subdata_missing_label_file [of True demo_ventral_only_files "''/cache''" "''100610''" "''lh''"
      demo_dataset demo_hemi "''/labels''"]
  by (simp add: is_file_def demo_dataset_def demo_ventral_only_files_def ventral_path_def
      dorsal_path_def path_join_def)

text \<open>
  When the cache file is there and \<^verbatim>\<open>overwrite\<close> is not set, the label files are not
  looked at: with both of them missing the call returns the cached arrays.
\<close>

theorem subdata_cached_ignores_labels:
  "\<not> is_file demo_cached_files (ventral_path ''/labels'' ''100610'' ''lh'')
   \<and> \<not> is_file demo_cached_files (dorsal_path ''/labels'' ''100610'' ''lh'')
   \<and> (\<exists>d. subdata demo_dataset demo_cached_files ''100610'' ''lh'' ''/labels'' ''/cache'' False
            = Inr (d, demo_cached_files) \<and> d ''label'' = Some [1])"
  by (simp add: subdata_def is_file_def demo_cached_files_def np_load_def cache_path_def
      ventral_path_def dorsal_path_def path_join_def Let_def)

end
